theory Spec2Isabelle
  imports Main "HOL-Library.Word"
begin

section \<open>Execution contexts (cpu/exec\_context.cc)\<close>

text \<open>
  The status of an execution context. The enumeration itself is declared in
  exec\_context.hh; the four values below are the ones exec\_context.cc uses.
\<close>

datatype Status = Unallocated | Active | Suspended | Halted

text \<open>
  The fields of \<open>ExecContext\<close> that exec\_context.cc reads or writes. Pointers
  (\<open>cpu\<close>, \<open>mem\<close>, \<open>system\<close>, \<open>process\<close>, ...) are addresses. The register file
  and the kernel statistics are copied as a whole and never inspected, so their
  types are parameters. The field \<open>_status\<close> is called \<open>status\<close> here, as its
  accessor \<open>status()\<close> is.
\<close>

record ('ks, 'regs) ExecContext =
  status :: Status
  kernelStats :: 'ks
  cpu :: nat
  thread_num :: int
  cpu_id :: int
  mem :: nat
  itb :: nat
  dtb :: nat
  system :: nat
  memCtrl :: nat
  physmem :: nat
  swCtx :: nat
  process :: nat
  asid :: int
  regs :: 'regs
  func_exe_inst :: "64 word"
  inst :: "32 word"
  storeCondFailures :: "32 word"

text \<open>
  The CPU a context belongs to (\<open>BaseCPU\<close>, cpu/base\_cpu.hh) is outside this
  file. It is modelled by the sequence of calls the context makes on it, oldest
  first, each with its arguments, so that "the callback was not invoked" is "the
  sequence did not grow". What a callback does inside the CPU is not modelled;
  it is taken not to write to the calling context.
\<close>

datatype cpu_call =
    activateContext int int
  | suspendContext int
  | deallocateContext int
  | haltContext int

type_synonym BaseCPU = "cpu_call list"

datatype error = AssertionFailed

text \<open>
  \<open>ExecContext::activate(int delay)\<close>, lines 182-190. The state is the context
  together with its CPU.
\<close>

definition activate ::
  "int \<Rightarrow> ('ks, 'regs) ExecContext \<times> BaseCPU \<Rightarrow> ('ks, 'regs) ExecContext \<times> BaseCPU" where
  "activate delay = (\<lambda>(xc, c).
     if status xc = Active then (xc, c)
     else (xc\<lparr>status := Active\<rparr>, c @ [activateContext (thread_num xc) delay]))"

text \<open>
  \<open>ExecContext::suspend()\<close>, lines 192-208. \<open>full_system\<close> is the compile-time
  switch \<open>FULL_SYSTEM\<close>; \<open>check_interrupts\<close> is the CPU's query, which may depend on
  everything that was called on the CPU so far. A failed \<open>assert\<close> aborts.
\<close>

definition suspend ::
  "bool \<Rightarrow> (BaseCPU \<Rightarrow> bool) \<Rightarrow> ('ks, 'regs) ExecContext \<times> BaseCPU
     \<Rightarrow> error + ('ks, 'regs) ExecContext \<times> BaseCPU" where
  "suspend full_system check_interrupts = (\<lambda>(xc, c).
     if status xc = Suspended then Inr (xc, c)
     else if full_system \<and> check_interrupts c then
       (if status xc = Active then Inr (xc, c) else Inl AssertionFailed)
     else Inr (xc\<lparr>status := Suspended\<rparr>, c @ [suspendContext (thread_num xc)]))"

text \<open>\<open>ExecContext::deallocate()\<close>, lines 210-218.\<close>

definition deallocate ::
  "('ks, 'regs) ExecContext \<times> BaseCPU \<Rightarrow> ('ks, 'regs) ExecContext \<times> BaseCPU" where
  "deallocate = (\<lambda>(xc, c).
     if status xc = Unallocated then (xc, c)
     else (xc\<lparr>status := Unallocated\<rparr>, c @ [deallocateContext (thread_num xc)]))"

text \<open>\<open>ExecContext::halt()\<close>, lines 220-228.\<close>

definition halt ::
  "('ks, 'regs) ExecContext \<times> BaseCPU \<Rightarrow> ('ks, 'regs) ExecContext \<times> BaseCPU" where
  "halt = (\<lambda>(xc, c).
     if status xc = Halted then (xc, c)
     else (xc\<lparr>status := Halted\<rparr>, c @ [haltContext (thread_num xc)]))"

text \<open>Running a second call after a first one that may have aborted.\<close>

definition and_then :: "error + 'a \<Rightarrow> ('a \<Rightarrow> error + 'a) \<Rightarrow> error + 'a" where
  "and_then r f = (case r of Inl e \<Rightarrow> Inl e | Inr s \<Rightarrow> f s)"

text \<open>
  \<open>ExecContext::takeOverFrom(ExecContext *oldContext)\<close>, lines 76-99. The two
  contexts are objects in a store, a function from addresses to contexts, and
  \<open>this\<close> and \<open>oldContext\<close> are addresses. Each assignment of the source is
  one update of the store, reading the store as it is at that point.
\<close>

type_synonym ('ks, 'regs) store = "nat \<Rightarrow> ('ks, 'regs) ExecContext"

definition takeOverFrom ::
  "bool \<Rightarrow> nat \<Rightarrow> nat \<Rightarrow> ('ks, 'regs) store \<Rightarrow> error + ('ks, 'regs) store" where
  "takeOverFrom full_system this oldContext h =
     (if mem (h this) \<noteq> mem (h oldContext) then Inl AssertionFailed
      else if full_system \<and> system (h this) \<noteq> system (h oldContext) then Inl AssertionFailed
      else if \<not> full_system \<and> process (h this) \<noteq> process (h oldContext) then Inl AssertionFailed
      else
        let h1 = h(this := (h this)\<lparr>status := status (h oldContext)\<rparr>);
            h2 = (if full_system
                  then h1(this := (h1 this)\<lparr>kernelStats := kernelStats (h1 oldContext)\<rparr>)
                  else h1);
            h3 = h2(this := (h2 this)\<lparr>regs := regs (h2 oldContext)\<rparr>);
            h4 = h3(this := (h3 this)\<lparr>cpu_id := cpu_id (h3 oldContext)\<rparr>);
            h5 = h4(this := (h4 this)\<lparr>func_exe_inst := func_exe_inst (h4 oldContext)\<rparr>);
            h6 = h5(this := (h5 this)\<lparr>storeCondFailures := 0\<rparr>);
            h7 = h6(oldContext := (h6 oldContext)\<lparr>status := Unallocated\<rparr>)
        in Inr h7)"

text \<open>
  Two contexts of one process and one memory: an active one that has not been
  assigned a CPU id (-1, as the constructors leave it), and a suspended one that
  has executed 42 instructions.
\<close>

definition xc0 :: "(nat, nat list) ExecContext" where
  "xc0 = \<lparr>status = Active, kernelStats = 11, cpu = 1, thread_num = 0, cpu_id = -1,
          mem = 2, itb = 0, dtb = 0, system = 0, memCtrl = 0, physmem = 0, swCtx = 0,
          process = 3, asid = 0, regs = [0, 0], func_exe_inst = 0, inst = 0,
          storeCondFailures = 5\<rparr>"

definition xc1 :: "(nat, nat list) ExecContext" where
  "xc1 = \<lparr>status = Suspended, kernelStats = 12, cpu = 4, thread_num = 1, cpu_id = 6,
          mem = 2, itb = 0, dtb = 0, system = 0, memCtrl = 0, physmem = 0, swCtx = 0,
          process = 3, asid = 0, regs = [7, 8], func_exe_inst = 42, inst = 0,
          storeCondFailures = 1\<rparr>"

text \<open>A store with \<open>xc1\<close> at address 1 and \<open>xc0\<close> everywhere else.\<close>

definition two_contexts :: "(nat, nat list) store" where
  "two_contexts = (\<lambda>p. xc0)(1 := xc1)"

text \<open>The kernel statistics of the context at an address once a call has returned.\<close>

definition kernelStats_after :: "error + ('ks, 'regs) store \<Rightarrow> nat \<Rightarrow> 'ks option" where
  "kernelStats_after r p = (case r of Inl e \<Rightarrow> None | Inr h \<Rightarrow> Some (kernelStats (h p)))"


section \<open>The remote GDB stub (base/remote\_gdb.hh)\<close>

text \<open>
  \<open>BaseRemoteGDB::build\<close>, lines 178-187. \<open>GDBStub\<close> is the constructor of the
  template's stub class, \<open>args\<close> its leading arguments, and \<open>getRemoteGDBPort\<close>
  the value the call \<open>getRemoteGDBPort()\<close> returns (the function is not in this
  file). A C++ \<open>int\<close> is a 32-bit word; the null pointer is \<open>None\<close>.
\<close>

definition build :: "('args \<Rightarrow> 32 word \<Rightarrow> 'stub) \<Rightarrow> 'args \<Rightarrow> 32 word \<Rightarrow> 'stub option" where
  "build GDBStub args getRemoteGDBPort =
     (let port = getRemoteGDBPort in
      if port \<noteq> 0 then Some (GDBStub args port) else None)"

subsection \<open>Memory gateway\<close>

type_synonym Addr = "64 word"
type_synonym memory = "Addr \<Rightarrow> 8 word"

text \<open>
  Modelled from the spec: the simulator's functional memory, which the spec only
  names ("route to the simulator's functional memory"). It is byte-addressed by
  64-bit target addresses; a block is stored and fetched byte by byte at
  consecutive addresses, which wrap around at \<open>2 ^ 64\<close>.
\<close>

fun writeBytes :: "Addr \<Rightarrow> 8 word list \<Rightarrow> memory \<Rightarrow> memory" where
  "writeBytes a [] m = m"
| "writeBytes a (b # bs) m = writeBytes (a + 1) bs (m(a := b))"

fun readBytes :: "Addr \<Rightarrow> nat \<Rightarrow> memory \<Rightarrow> 8 word list" where
  "readBytes a 0 m = []"
| "readBytes a (Suc n) m = m a # readBytes (a + 1) n m"

text \<open>
  Modelled from the spec: \<open>BaseRemoteGDB::read\<close> and \<open>BaseRemoteGDB::write\<close>
  (declared at lines 274-275; their bodies are not in the sources), after
  section 4.4: both "consult the pure-virtual \<open>acc(addr, len)\<close>" and "route to the
  simulator's functional memory"; a failed check fails the whole block. \<open>acc_ok\<close>
  is the subclass's \<open>acc\<close>. The result is the \<open>bool\<close> the declaration returns,
  with the bytes read or the memory after the call.
\<close>

definition gdb_read ::
  "(Addr \<Rightarrow> 64 word \<Rightarrow> bool) \<Rightarrow> Addr \<Rightarrow> 64 word \<Rightarrow> memory \<Rightarrow> bool \<times> 8 word list" where
  "gdb_read acc_ok addr len m =
     (if acc_ok addr len then (True, readBytes addr (unat len) m) else (False, []))"

definition gdb_write ::
  "(Addr \<Rightarrow> 64 word \<Rightarrow> bool) \<Rightarrow> Addr \<Rightarrow> 64 word \<Rightarrow> 8 word list \<Rightarrow> memory \<Rightarrow> bool \<times> memory" where
  "gdb_write acc_ok addr len data m =
     (if acc_ok addr len then (True, writeBytes addr (take (unat len) data) m) else (False, m))"

text \<open>
  Modelled from the spec: \<open>BaseRemoteGDB::cmdMemW\<close> (declared at line 333), the
  handler of \<open>M addr,len:data\<close>, on its parsed arguments: the reply is \<open>OK\<close> when
  the write succeeds and \<open>E01\<close> when it does not (sections 4.4 and 6).
\<close>

definition cmdMemW ::
  "(Addr \<Rightarrow> 64 word \<Rightarrow> bool) \<Rightarrow> Addr \<Rightarrow> 64 word \<Rightarrow> 8 word list \<Rightarrow> memory \<Rightarrow> string \<times> memory" where
  "cmdMemW acc_ok addr len data m =
     (case gdb_write acc_ok addr len data m of
        (True, m') \<Rightarrow> (''OK'', m')
      | (False, m') \<Rightarrow> (''E01'', m'))"

text \<open>An access check that admits the 16 bytes from address 0x1000 on.\<close>

definition acc_page :: "Addr \<Rightarrow> 64 word \<Rightarrow> bool" where
  "acc_page addr len = (4096 \<le> unat addr \<and> unat addr + unat len \<le> 4112)"

subsection \<open>Breakpoint manager\<close>

text \<open>
  Modelled from the spec: the software breakpoint table and
  \<open>BaseRemoteGDB::insertSoftBreak\<close> / \<open>removeSoftBreak\<close> (declared at lines
  293-294; their bodies are not in the sources), after sections 3 and 4.5: the
  table is a set keyed by (address, length); an installation whose length fails
  \<open>checkBpLen\<close> fails with \<open>E01\<close>; a duplicate installation is a no-op; removing
  an absent breakpoint fails with \<open>E01\<close>. \<open>checkBpLen\<close> is the subclass's
  (overridable) length check.
\<close>

type_synonym bp_table = "(Addr \<times> 64 word) set"

datatype cmd_error = E01

definition insertSoftBreak ::
  "(64 word \<Rightarrow> bool) \<Rightarrow> Addr \<Rightarrow> 64 word \<Rightarrow> bp_table \<Rightarrow> cmd_error + bp_table" where
  "insertSoftBreak checkBpLen addr len t =
     (if \<not> checkBpLen len then Inl E01 else Inr (insert (addr, len) t))"

definition removeSoftBreak ::
  "(64 word \<Rightarrow> bool) \<Rightarrow> Addr \<Rightarrow> 64 word \<Rightarrow> bp_table \<Rightarrow> cmd_error + bp_table" where
  "removeSoftBreak checkBpLen addr len t =
     (if \<not> checkBpLen len then Inl E01
      else if (addr, len) \<notin> t then Inl E01
      else Inr (t - {(addr, len)}))"

text \<open>
  Modelled from the spec: the handlers of \<open>Z0 addr,len\<close> and \<open>z0 addr,len\<close>
  (\<open>cmdSetHwBkpt\<close> and \<open>cmdClrHwBkpt\<close>, declared at lines 337-338) on their parsed
  arguments: the reply is \<open>OK\<close> on success and \<open>E01\<close> on an error, which leaves
  the table as it was.
\<close>

definition cmdSetHwBkpt ::
  "(64 word \<Rightarrow> bool) \<Rightarrow> Addr \<Rightarrow> 64 word \<Rightarrow> bp_table \<Rightarrow> string \<times> bp_table" where
  "cmdSetHwBkpt checkBpLen addr len t =
     (case insertSoftBreak checkBpLen addr len t of
        Inl E01 \<Rightarrow> (''E01'', t)
      | Inr t' \<Rightarrow> (''OK'', t'))"

definition cmdClrHwBkpt ::
  "(64 word \<Rightarrow> bool) \<Rightarrow> Addr \<Rightarrow> 64 word \<Rightarrow> bp_table \<Rightarrow> string \<times> bp_table" where
  "cmdClrHwBkpt checkBpLen addr len t =
     (case removeSoftBreak checkBpLen addr len t of
        Inl E01 \<Rightarrow> (''E01'', t)
      | Inr t' \<Rightarrow> (''OK'', t'))"

text \<open>A length check that admits 4-byte instructions only.\<close>

definition len_is_4 :: "64 word \<Rightarrow> bool" where
  "len_is_4 len = (len = 4)"


section \<open>Properties of the execution context\<close>

text \<open>
  Claim C9. Each of \<open>activate\<close>, \<open>suspend\<close>, \<open>deallocate\<close> and \<open>halt\<close> is
  idempotent. A call on a context that is already in the operation's target
  status returns at once: the context (so its status) is unchanged and the CPU's
  call sequence has not grown, so the callback was not invoked. Hence a second
  call after a first has the effect of the first alone; for \<open>activate\<close> this
  holds even when the two delays differ, and for \<open>suspend\<close> in both builds, where
  a first call that aborts on its assertion is never followed by a second.
\<close>

theorem status_ops_idempotent:
  "(status xc = Active \<longrightarrow> activate d (xc, c) = (xc, c)) \<and>
   (status xc = Suspended \<longrightarrow> suspend fs ci (xc, c) = Inr (xc, c)) \<and>
   (status xc = Unallocated \<longrightarrow> deallocate (xc, c) = (xc, c)) \<and>
   (status xc = Halted \<longrightarrow> halt (xc, c) = (xc, c)) \<and>
   activate d' (activate d (xc, c)) = activate d (xc, c) \<and>
   and_then (suspend fs ci (xc, c)) (suspend fs ci) = suspend fs ci (xc, c) \<and>
   deallocate (deallocate (xc, c)) = deallocate (xc, c) \<and>
   halt (halt (xc, c)) = halt (xc, c)"
proof -
  have a: "activate d' (activate d (xc, c)) = activate d (xc, c)"
    by (simp add: activate_def)
  have s: "and_then (suspend fs ci (xc, c)) (suspend fs ci) = suspend fs ci (xc, c)"
    by (simp add: suspend_def and_then_def)
  have d: "deallocate (deallocate (xc, c)) = deallocate (xc, c)"
    by (simp add: deallocate_def)
  have h: "halt (halt (xc, c)) = halt (xc, c)"
    by (simp add: halt_def)
  show ?thesis
    using a s d h by (simp add: activate_def suspend_def deallocate_def halt_def)
qed

theorem status_ops_idempotent_witness:
  "status xc0 = Active \<and> activate 7 (xc0, []) = (xc0, []) \<and>
   status xc1 = Suspended \<and> suspend True (\<lambda>c. True) (xc1, []) = Inr (xc1, []) \<and>
   status (xc0\<lparr>status := Unallocated\<rparr>) = Unallocated \<and>
   deallocate (xc0\<lparr>status := Unallocated\<rparr>, []) = (xc0\<lparr>status := Unallocated\<rparr>, []) \<and>
   status (xc0\<lparr>status := Halted\<rparr>) = Halted \<and>
   halt (xc0\<lparr>status := Halted\<rparr>, []) = (xc0\<lparr>status := Halted\<rparr>, []) \<and>
   activate 9 (activate 7 (xc1, [])) = (xc1\<lparr>status := Active\<rparr>, [activateContext 1 7]) \<and>
   and_then (suspend True (\<lambda>c. True) (xc0, [])) (suspend True (\<lambda>c. True)) = Inr (xc0, []) \<and>
   and_then (suspend False (\<lambda>c. True) (xc0, [])) (suspend False (\<lambda>c. True))
     = Inr (xc0\<lparr>status := Suspended\<rparr>, [suspendContext 0])"
proof -
  have act: "status xc0 = Active" and sus: "status xc1 = Suspended"
    by (simp_all add: xc0_def xc1_def)
  have una: "status (xc0\<lparr>status := Unallocated\<rparr>) = Unallocated"
    and hal: "status (xc0\<lparr>status := Halted\<rparr>) = Halted"
    by simp_all
  have once_a: "activate 7 (xc1, []) = (xc1\<lparr>status := Active\<rparr>, [activateContext 1 7])"
    by (simp add: activate_def xc1_def)
  have once_s: "suspend True (\<lambda>c. True) (xc0, []) = Inr (xc0, [])"
    by (simp add: suspend_def xc0_def)
  have once_s': "suspend False (\<lambda>c. True) (xc0, [])
      = Inr (xc0\<lparr>status := Suspended\<rparr>, [suspendContext 0])"
    by (simp add: suspend_def xc0_def)
  show ?thesis
    using act sus una hal once_a once_s once_s'
      status_ops_idempotent [where xc = xc0 and c = "[]" and d = 7]
      status_ops_idempotent [where xc = xc1 and c = "[]" and d = 7 and d' = 9
        and fs = True and ci = "\<lambda>c. True"]
      status_ops_idempotent [where xc = "xc0\<lparr>status := Unallocated\<rparr>" and c = "[]"]
      status_ops_idempotent [where xc = "xc0\<lparr>status := Halted\<rparr>" and c = "[]"]
      status_ops_idempotent [where xc = xc0 and c = "[]" and fs = True and ci = "\<lambda>c. True"]
      status_ops_idempotent [where xc = xc0 and c = "[]" and fs = False and ci = "\<lambda>c. True"]
    by simp
qed

text \<open>
  Claim C10, with the kernel statistics. For a receiver and an old context (two
  objects) that satisfy the precondition of \<open>takeOverFrom\<close> (the same memory,
  and the same system in a \<open>FULL_SYSTEM\<close> build or the same process otherwise),
  the call returns; it copies the old context's status, register file, cpu\_id
  and func\_exe\_inst and, in a \<open>FULL_SYSTEM\<close> build, its kernelStats into the
  receiver, sets the receiver's storeCondFailures to 0 and leaves the old
  context's status \<open>Unallocated\<close>. Every other field of the receiver
  (thread\_num, cpu and mem among them) is unchanged, and so are the other
  fields of the old context and every other context.
\<close>

theorem takeOverFrom_effect:
  assumes "this \<noteq> old"
    and "mem (h this) = mem (h old)"
    and "if fs then system (h this) = system (h old) else process (h this) = process (h old)"
  shows "takeOverFrom fs this old h = Inr
    (h(this := (h this)\<lparr>status := status (h old),
                  kernelStats := (if fs then kernelStats (h old) else kernelStats (h this)),
                  regs := regs (h old), cpu_id := cpu_id (h old),
                  func_exe_inst := func_exe_inst (h old), storeCondFailures := 0\<rparr>,
       old := (h old)\<lparr>status := Unallocated\<rparr>))"
  using assms
  by (auto simp add: takeOverFrom_def Let_def fun_upd_twist split: if_splits)

theorem takeOverFrom_effect_witness:
  "(0 :: nat) \<noteq> 1 \<and>
   mem (two_contexts 0) = mem (two_contexts 1) \<and>
   process (two_contexts 0) = process (two_contexts 1) \<and>
   system (two_contexts 0) = system (two_contexts 1) \<and>
   takeOverFrom False 0 1 two_contexts = Inr
     (two_contexts
       (0 := xc0\<lparr>status := Suspended, regs := [7, 8], cpu_id := 6, func_exe_inst := 42,
                 storeCondFailures := 0\<rparr>,
        1 := xc1\<lparr>status := Unallocated\<rparr>)) \<and>
   takeOverFrom True 0 1 two_contexts = Inr
     (two_contexts
       (0 := xc0\<lparr>status := Suspended, kernelStats := 12, regs := [7, 8], cpu_id := 6,
                 func_exe_inst := 42, storeCondFailures := 0\<rparr>,
        1 := xc1\<lparr>status := Unallocated\<rparr>))"
proof -
  have d: "(0 :: nat) \<noteq> 1"
    by simp
  have m: "mem (two_contexts 0) = mem (two_contexts 1)"
    by (simp add: two_contexts_def xc0_def xc1_def)
  have p: "if False then system (two_contexts 0) = system (two_contexts 1)
           else process (two_contexts 0) = process (two_contexts 1)"
    by (simp add: two_contexts_def xc0_def xc1_def)
  have q: "if True then system (two_contexts 0) = system (two_contexts 1)
           else process (two_contexts 0) = process (two_contexts 1)"
    by (simp add: two_contexts_def xc0_def xc1_def)
  have at: "two_contexts 0 = xc0" "two_contexts (Suc 0) = xc1"
    by (simp_all add: two_contexts_def)
  have old: "status xc1 = Suspended" "regs xc1 = [7, 8]" "cpu_id xc1 = 6"
    "func_exe_inst xc1 = 42" "kernelStats xc1 = 12"
    by (simp_all add: xc1_def)
  show ?thesis
    using m p q takeOverFrom_effect [OF d m p] takeOverFrom_effect [OF d m q]
    by (simp add: at old)
qed

text \<open>
  Claim C10 as stated fails in a \<open>FULL_SYSTEM\<close> build, for two contexts of one
  memory and one system: the receiver's kernelStats, which is not among the
  fields the claim lists as copied, was 11 and is the old context's 12 after
  the call.
\<close>

theorem takeOverFrom_kernelStats_counterexample:
  "mem (two_contexts 0) = mem (two_contexts 1) \<and>
   system (two_contexts 0) = system (two_contexts 1) \<and>
   kernelStats (two_contexts 0) = 11 \<and>
   kernelStats_after (takeOverFrom True 0 1 two_contexts) 0 = Some 12"
  by (simp add: takeOverFrom_def kernelStats_after_def two_contexts_def xc0_def xc1_def Let_def)


section \<open>Properties of the remote GDB stub\<close>

text \<open>
  Claim C8. \<open>build\<close> returns the null pointer when the configured port is 0 and
  otherwise the stub its constructor builds from the arguments and that port: a
  stub exists if and only if the port is not zero.
\<close>

theorem build_null_iff_port_zero:
  "build GDBStub args port = (if port = 0 then None else Some (GDBStub args port)) \<and>
   (build GDBStub args port = None \<longleftrightarrow> port = 0)"
  by (simp add: build_def)

subsection \<open>Memory gateway\<close>

lemma writeBytes_other:
  "\<forall>i < length bs. x \<noteq> a + of_nat i \<Longrightarrow> writeBytes a bs m x = m x"
proof (induction bs arbitrary: a m)
  case Nil
  then show ?case by simp
next
  case (Cons b bs)
  have "x \<noteq> a" using Cons.prems[rule_format, of 0] by simp
  moreover have "\<forall>i < length bs. x \<noteq> (a + 1) + of_nat i"
  proof (intro allI impI)
    fix i assume "i < length bs"
    then have "Suc i < length (b # bs)" by simp
    then have "x \<noteq> a + of_nat (Suc i)" using Cons.prems by blast
    then show "x \<noteq> (a + 1) + of_nat i" by (simp add: add.assoc)
  qed
  ultimately show ?case by (simp add: Cons.IH)
qed

lemma addr_step_ne:
  fixes a :: Addr
  assumes "i < n" "n < 2 ^ 64"
  shows "a \<noteq> (a + 1) + of_nat i"
proof
  assume "a = (a + 1) + of_nat i"
  then have "(of_nat (Suc i) :: Addr) = 0" by (simp add: add.assoc)
  then have "2 ^ LENGTH(64) dvd Suc i" by (rule word_of_nat_eq_0_iff [THEN iffD1])
  then have "(2 :: nat) ^ 64 dvd Suc i" by simp
  then have "2 ^ 64 \<le> Suc i" by (rule dvd_imp_le) simp
  then show False using assms by simp
qed

lemma read_after_write:
  "length bs < 2 ^ 64 \<Longrightarrow> readBytes a (length bs) (writeBytes a bs m) = bs"
proof (induction bs arbitrary: a m)
  case Nil
  then show ?case by simp
next
  case (Cons b bs)
  have "\<forall>i < length bs. a \<noteq> (a + 1) + of_nat i"
    using addr_step_ne[of _ "length bs" a] Cons.prems by simp
  then have "writeBytes (a + 1) bs (m(a := b)) a = b"
    by (simp add: writeBytes_other)
  then show ?case using Cons by simp
qed

lemma unat_len_bound: "unat (len :: 64 word) < 2 ^ 64"
  using unsigned_less[of len, where 'a = nat] by simp

text \<open>
  Claim C2. A memory write (\<open>M\<close> packet) is all-or-nothing. When the range fails
  the access check, the reply is \<open>E01\<close> and the memory is unchanged. When it
  passes (and the packet carries as many bytes as its length says), the reply is
  \<open>OK\<close>, the whole block is written, and a read of the same range returns the
  bytes written.
\<close>

theorem memory_write_all_or_nothing:
  "(\<not> acc_ok addr len \<longrightarrow> cmdMemW acc_ok addr len data m = (''E01'', m)) \<and>
   (acc_ok addr len \<and> length data = unat len \<longrightarrow>
      fst (cmdMemW acc_ok addr len data m) = ''OK'' \<and>
      snd (cmdMemW acc_ok addr len data m) = writeBytes addr data m \<and>
      gdb_read acc_ok addr len (snd (cmdMemW acc_ok addr len data m)) = (True, data))"
proof (intro conjI impI)
  assume "\<not> acc_ok addr len"
  then show "cmdMemW acc_ok addr len data m = (''E01'', m)"
    by (simp add: cmdMemW_def gdb_write_def)
next
  assume a: "acc_ok addr len \<and> length data = unat len"
  then have w: "cmdMemW acc_ok addr len data m = (''OK'', writeBytes addr data m)"
    by (simp add: cmdMemW_def gdb_write_def)
  show "fst (cmdMemW acc_ok addr len data m) = ''OK''" by (simp add: w)
  show "snd (cmdMemW acc_ok addr len data m) = writeBytes addr data m" by (simp add: w)
  have "length data < 2 ^ 64" using a unat_len_bound[of len] by simp
  then have "readBytes addr (length data) (writeBytes addr data m) = data"
    by (rule read_after_write)
  then show "gdb_read acc_ok addr len (snd (cmdMemW acc_ok addr len data m)) = (True, data)"
    using a by (simp add: w gdb_read_def)
qed

theorem memory_write_all_or_nothing_witness:
  "\<not> acc_page 0 4 \<and> cmdMemW acc_page 0 4 [1, 2, 3, 4] (\<lambda>a. 0) = (''E01'', \<lambda>a. 0) \<and>
   acc_page 4096 4 \<and> length [222, 173, 190, 239 :: 8 word] = unat (4 :: 64 word) \<and>
   fst (cmdMemW acc_page 4096 4 [222, 173, 190, 239] (\<lambda>a. 0)) = ''OK'' \<and>
   gdb_read acc_page 4096 4 (snd (cmdMemW acc_page 4096 4 [222, 173, 190, 239] (\<lambda>a. 0)))
     = (True, [222, 173, 190, 239])"
proof -
  have no: "\<not> acc_page 0 4"
    by (simp add: acc_page_def)
  have yes: "acc_page 4096 4 \<and> length [222, 173, 190, 239 :: 8 word] = unat (4 :: 64 word)"
    by (simp add: acc_page_def)
  show ?thesis
    using no yes
      memory_write_all_or_nothing [of acc_page 0 4 "[1, 2, 3, 4]" "\<lambda>a. 0"]
      memory_write_all_or_nothing [of acc_page 4096 4 "[222, 173, 190, 239]" "\<lambda>a. 0"]
    by blast
qed

subsection \<open>Breakpoint manager\<close>

text \<open>
  Claim C3. For a length that passes the length check, \<open>Z0 addr,len\<close> replies
  \<open>OK\<close>; a second \<open>Z0 addr,len\<close> replies \<open>OK\<close> too and leaves the table as the
  first left it; one \<open>z0 addr,len\<close> then replies \<open>OK\<close> and removes the
  breakpoint, so that none is left at \<open>addr\<close> if none was there before the
  first insertion. Removing a breakpoint that is not in the table replies \<open>E01\<close>
  and leaves the table unchanged.
\<close>

theorem softbreak_insert_twice_remove_once:
  assumes "checkBpLen len"
  shows "cmdSetHwBkpt checkBpLen addr len t = (''OK'', insert (addr, len) t) \<and>
    cmdSetHwBkpt checkBpLen addr len (insert (addr, len) t) = (''OK'', insert (addr, len) t) \<and>
    cmdClrHwBkpt checkBpLen addr len (insert (addr, len) t) = (''OK'', t - {(addr, len)}) \<and>
    (addr, len) \<notin> t - {(addr, len)} \<and>
    ((\<forall>l. (addr, l) \<notin> t) \<longrightarrow> (\<forall>l. (addr, l) \<notin> t - {(addr, len)})) \<and>
    ((addr, len) \<notin> t \<longrightarrow> cmdClrHwBkpt checkBpLen addr len t = (''E01'', t))"
  using assms
  by (simp add: cmdSetHwBkpt_def cmdClrHwBkpt_def insertSoftBreak_def removeSoftBreak_def)

theorem softbreak_insert_twice_remove_once_witness:
  "len_is_4 4 \<and>
   cmdSetHwBkpt len_is_4 16384 4 {} = (''OK'', {(16384, 4)}) \<and>
   cmdSetHwBkpt len_is_4 16384 4 {(16384, 4)} = (''OK'', {(16384, 4)}) \<and>
   cmdClrHwBkpt len_is_4 16384 4 {(16384, 4)} = (''OK'', {}) \<and>
   cmdClrHwBkpt len_is_4 16384 4 {} = (''E01'', {})"
  using softbreak_insert_twice_remove_once [of len_is_4 4 16384 "{}"]
  by (simp add: len_is_4_def)

end
